theory Spec2Isabelle
  imports Main "HOL-Library.AList" "HOL-Library.Char_ord" "HOL-Library.List_Lexorder"
begin

section \<open>The community MQTT feed: data model\<close>

text \<open>
  A shallow embedding of \<^verbatim>\<open>octobot/community/feeds/community_mqtt_feed.py\<close>
  (class \<^verbatim>\<open>CommunityMQTTFeed\<close>). Methods keep their names without the leading
  underscore, which an Isabelle name cannot start with. Mutation of \<^verbatim>\<open>self\<close> is
  explicit state passing; a raised exception is the \<open>Inl\<close> branch of a sum, returned
  together with the state as it was when the exception left the method.
\<close>

subsection \<open>Python values and exceptions\<close>

text \<open>
  A member of the enumeration \<^verbatim>\<open>commons_enums.CommunityChannelTypes\<close>, identified by
  its \<^verbatim>\<open>.value\<close>. The enumeration lives in the package \<^verbatim>\<open>octobot_commons\<close>; the
  feed reads nothing of a member but its value.
\<close>

datatype CommunityChannelTypes = ChannelType string

fun channel_value :: "CommunityChannelTypes \<Rightarrow> string" where
  "channel_value (ChannelType v) = v"

type_synonym bytes = "nat list"

text \<open>
  The Python objects that travel through the feed: what \<^verbatim>\<open>json.loads\<close> can return
  (floats left out), byte strings, and enumeration members (the envelope built by
  \<^verbatim>\<open>_build_message\<close> holds the \<^verbatim>\<open>channel_type\<close> argument itself). A dictionary is
  an association list in insertion order.
\<close>

datatype pyval =
    PyNone
  | PyBool bool
  | PyInt int
  | PyStr string
  | PyBytes bytes
  | PyList "pyval list"
  | PyDict "(string \<times> pyval) list"
  | PyEnum CommunityChannelTypes

text \<open>Python truthiness, as \<^verbatim>\<open>if message:\<close> tests it.\<close>

fun truthy :: "pyval \<Rightarrow> bool" where
  "truthy PyNone = False"
| "truthy (PyBool b) = b"
| "truthy (PyInt i) = (i \<noteq> 0)"
| "truthy (PyStr s) = (s \<noteq> [])"
| "truthy (PyBytes b) = (b \<noteq> [])"
| "truthy (PyList xs) = (xs \<noteq> [])"
| "truthy (PyDict kvs) = (kvs \<noteq> [])"
| "truthy (PyEnum c) = True"

datatype error =
    ZlibError
  | UnicodeDecodeError
  | JSONDecodeError
  | KeyError string
  | TypeError
  | AttributeError
  | UnsupportedError string
  | OtherError string

text \<open>
  Modelled from the spec: \<^verbatim>\<open>commons_enums.CommunityFeedAttrs\<close> is not under src/; the
  spec names the three fields of the envelope \<open>channel_type\<close>, \<open>version\<close> and
  \<open>value\<close>. No theorem below depends on the spelling of the keys, only on their being
  three different strings.
\<close>

datatype CommunityFeedAttrs = CHANNEL_TYPE | VERSION | VALUE

fun attr_value :: "CommunityFeedAttrs \<Rightarrow> string" where
  "attr_value CHANNEL_TYPE = ''channel_type''"
| "attr_value VERSION = ''version''"
| "attr_value VALUE = ''value''"

subsection \<open>Topics\<close>

text \<open>
  \<^verbatim>\<open>f"{channel_type.value}/{identifier}"\<close>: the format of a string is the string, the
  format of \<^verbatim>\<open>None\<close> (the default of \<^verbatim>\<open>register_feed_callback\<close>) is the text
  \<^verbatim>\<open>None\<close>.
\<close>

fun format_identifier :: "string option \<Rightarrow> string" where
  "format_identifier None = ''None''"
| "format_identifier (Some i) = i"

definition build_topic :: "CommunityChannelTypes \<Rightarrow> string option \<Rightarrow> string" where
  "build_topic channel_type identifier =
     channel_value channel_type @ ''/'' @ format_identifier identifier"

subsection \<open>The envelope codec\<close>

text \<open>
  The feed calls \<^verbatim>\<open>json.dumps\<close>, \<^verbatim>\<open>str.encode\<close>, \<^verbatim>\<open>zlib.compress\<close> and their
  inverses. They are library code, so they are parameters of the model: a record of the
  six functions. The decoding side can raise (\<^verbatim>\<open>zlib.error\<close>,
  \<^verbatim>\<open>UnicodeDecodeError\<close>, \<^verbatim>\<open>json.JSONDecodeError\<close>), and so can
  \<^verbatim>\<open>json.dumps\<close> (a \<^verbatim>\<open>TypeError\<close> on an object it cannot serialise).
  \<^verbatim>\<open>str.encode\<close> of the ASCII text \<^verbatim>\<open>json.dumps\<close> returns and \<^verbatim>\<open>zlib.compress\<close>
  of a byte string always return.
\<close>

record codec =
  json_dumps :: "pyval \<Rightarrow> error + string"
  str_encode :: "string \<Rightarrow> bytes"
  zlib_compress :: "bytes \<Rightarrow> bytes"
  zlib_decompress :: "bytes \<Rightarrow> error + bytes"
  bytes_decode :: "bytes \<Rightarrow> error + string"
  json_loads :: "string \<Rightarrow> error + pyval"

text \<open>The dictionary literal of \<^verbatim>\<open>_build_message\<close>, in the order it is written.\<close>

definition envelope :: "string \<Rightarrow> CommunityChannelTypes \<Rightarrow> pyval \<Rightarrow> pyval" where
  "envelope min_version channel_type message =
     PyDict [(attr_value CHANNEL_TYPE, PyEnum channel_type),
             (attr_value VERSION, PyStr min_version),
             (attr_value VALUE, message)]"

text \<open>
  \<^verbatim>\<open>_build_message\<close>: the compressed envelope for a truthy message, the empty
  dictionary \<^verbatim>\<open>{}\<close> otherwise. \<open>min_version\<close> is
  \<^verbatim>\<open>constants.COMMUNITY_FEED_CURRENT_MINIMUM_VERSION\<close>, a constant of a module that is
  not under src/ and therefore a parameter.
\<close>

definition build_message ::
  "codec \<Rightarrow> string \<Rightarrow> CommunityChannelTypes \<Rightarrow> pyval \<Rightarrow> error + pyval" where
  "build_message cdc min_version channel_type message =
     (if truthy message
      then (case json_dumps cdc (envelope min_version channel_type message) of
              Inl e \<Rightarrow> Inl e
            | Inr txt \<Rightarrow> Inr (PyBytes (zlib_compress cdc (str_encode cdc txt))))
      else Inr (PyDict []))"

text \<open>
  Line 87 of the source, \<^verbatim>\<open>json.loads(zlib.decompress(payload).decode())\<close>: the first
  stage that raises decides the exception.
\<close>

definition decode_payload :: "codec \<Rightarrow> bytes \<Rightarrow> error + pyval" where
  "decode_payload cdc payload =
     (case zlib_decompress cdc payload of
        Inl e \<Rightarrow> Inl e
      | Inr raw \<Rightarrow>
          (case bytes_decode cdc raw of
             Inl e \<Rightarrow> Inl e
           | Inr txt \<Rightarrow> json_loads cdc txt))"

subsection \<open>Version comparison\<close>

text \<open>
  \<^verbatim>\<open>distutils.version.LooseVersion\<close> of the Python standard library, as the feed uses
  it. \<^verbatim>\<open>parse\<close> splits the string with the pattern \<^verbatim>\<open>(\d+ | [a-z]+ | \.)\<close>, drops the
  empty pieces and the dots, and turns the pieces \<^verbatim>\<open>int\<close> accepts into integers: a
  version is a list of numbers and strings. A piece is a maximal run of digits, a maximal
  run of lower-case letters, or a maximal run of characters that are none of these and
  no dot (the text between two matches).
\<close>

datatype component = CInt nat | CStr string

definition is_digit :: "char \<Rightarrow> bool" where
  "is_digit c = (c \<in> set ''0123456789'')"

definition is_lower :: "char \<Rightarrow> bool" where
  "is_lower c = (c \<in> set ''abcdefghijklmnopqrstuvwxyz'')"

definition is_other :: "char \<Rightarrow> bool" where
  "is_other c = (\<not> is_digit c \<and> \<not> is_lower c \<and> c \<noteq> CHR ''.'')"

definition int_of_digits :: "string \<Rightarrow> nat" where
  "int_of_digits s = foldl (\<lambda>acc c. 10 * acc + (of_char c - 48)) 0 s"

function parse_components :: "string \<Rightarrow> component list" where
  "parse_components [] = []"
| "parse_components (c # cs) =
     (if is_digit c
      then CInt (int_of_digits (c # takeWhile is_digit cs))
             # parse_components (dropWhile is_digit cs)
      else if is_lower c
      then CStr (c # takeWhile is_lower cs) # parse_components (dropWhile is_lower cs)
      else if c = CHR ''.''
      then parse_components cs
      else CStr (c # takeWhile is_other cs) # parse_components (dropWhile is_other cs))"
  by pat_completeness auto
termination
  by (relation "measure length") (auto simp: length_dropWhile_le less_Suc_eq_le)

text \<open>
  \<^verbatim>\<open>LooseVersion.__init__\<close>: \<^verbatim>\<open>if vstring: self.parse(vstring)\<close>. A falsy argument
  leaves the object without its \<^verbatim>\<open>version\<close> attribute (\<open>None\<close> here); a truthy one
  that is no string makes \<^verbatim>\<open>re.split\<close> raise a \<^verbatim>\<open>TypeError\<close>.
\<close>

definition loose_version :: "pyval \<Rightarrow> error + component list option" where
  "loose_version vstring =
     (if truthy vstring
      then (case vstring of
              PyStr s \<Rightarrow> Inr (Some (parse_components s))
            | _ \<Rightarrow> Inl TypeError)
      else Inr None)"

text \<open>
  Python's \<^verbatim>\<open><\<close> on two lists: the first pair of unequal elements decides, a proper
  prefix is smaller. Numbers compare as numbers, strings by code points, and a number
  against a string raises a \<^verbatim>\<open>TypeError\<close>.
\<close>

fun component_lt :: "component \<Rightarrow> component \<Rightarrow> error + bool" where
  "component_lt (CInt a) (CInt b) = Inr (a < b)"
| "component_lt (CStr a) (CStr b) = Inr (a < b)"
| "component_lt (CInt a) (CStr b) = Inl TypeError"
| "component_lt (CStr a) (CInt b) = Inl TypeError"

fun list_lt :: "component list \<Rightarrow> component list \<Rightarrow> error + bool" where
  "list_lt [] [] = Inr False"
| "list_lt [] (y # ys) = Inr True"
| "list_lt (x # xs) [] = Inr False"
| "list_lt (x # xs) (y # ys) = (if x = y then list_lt xs ys else component_lt x y)"

text \<open>
  \<^verbatim>\<open>Version.__lt__\<close> through \<^verbatim>\<open>LooseVersion._cmp\<close>: both \<^verbatim>\<open>version\<close> attributes
  are read first (an \<^verbatim>\<open>AttributeError\<close> where one is missing), equal lists are not
  smaller, otherwise the lists are compared.
\<close>

definition version_lt ::
  "component list option \<Rightarrow> component list option \<Rightarrow> error + bool" where
  "version_lt a b =
     (case a of
        None \<Rightarrow> Inl AttributeError
      | Some xs \<Rightarrow>
          (case b of
             None \<Rightarrow> Inl AttributeError
           | Some ys \<Rightarrow> list_lt xs ys))"

text \<open>\<^verbatim>\<open>parsed_message[key]\<close>: only a dictionary can be read at a string key.\<close>

definition subscript :: "pyval \<Rightarrow> string \<Rightarrow> error + pyval" where
  "subscript obj k =
     (case obj of
        PyDict kvs \<Rightarrow> (case map_of kvs k of None \<Rightarrow> Inl (KeyError k) | Some v \<Rightarrow> Inr v)
      | _ \<Rightarrow> Inl TypeError)"

text \<open>\<^verbatim>\<open>_ensure_supported\<close>, lines 120 to 125.\<close>

definition ensure_supported :: "string \<Rightarrow> pyval \<Rightarrow> error + unit" where
  "ensure_supported min_version parsed_message =
     (case subscript parsed_message (attr_value VERSION) of
        Inl e \<Rightarrow> Inl e
      | Inr v \<Rightarrow>
          (case loose_version v of
             Inl e \<Rightarrow> Inl e
           | Inr lv \<Rightarrow>
               (case loose_version (PyStr min_version) of
                  Inl e \<Rightarrow> Inl e
                | Inr lmin \<Rightarrow>
                    (case version_lt lv lmin of
                       Inl e \<Rightarrow> Inl e
                     | Inr lt \<Rightarrow>
                         if lt then Inl (UnsupportedError (''Minimum version: '' @ min_version))
                         else Inr ()))))"

text \<open>
  The spec's ordering, to compare the code with: a semantic version is a triple
  major, minor, patch, written with dots, and versions are ordered component by
  component. \<open>str_nat\<close> is Python's \<^verbatim>\<open>str\<close> of a natural number.
\<close>

fun digit_char :: "nat \<Rightarrow> char" where
  "digit_char n = char_of (48 + n)"

function str_nat :: "nat \<Rightarrow> string" where
  "str_nat n = (if n < 10 then [digit_char n] else str_nat (n div 10) @ [digit_char (n mod 10)])"
  by pat_completeness auto
termination
  by (relation "measure id") auto

fun semver_string :: "nat \<times> nat \<times> nat \<Rightarrow> string" where
  "semver_string (major, minor, patch) =
     str_nat major @ ''.'' @ str_nat minor @ ''.'' @ str_nat patch"

fun semver_lt :: "nat \<times> nat \<times> nat \<Rightarrow> nat \<times> nat \<times> nat \<Rightarrow> bool" where
  "semver_lt (a, b, c) (a', b', c') =
     (a < a' \<or> (a = a' \<and> (b < b' \<or> (b = b' \<and> c < c'))))"

subsection \<open>The session\<close>

datatype level = DEBUG | INFO | WARNING | ERROR

text \<open>What the feed logs, one constructor per logging call of the source.\<close>

datatype log_message =
    RecvMsg string bytes nat
  | UnsupportedMessage error
  | Connected
  | Disconnected
  | RetryingSub nat int
  | Subscribed nat int
  | NoTopicToSubscribe
  | SubscribingTo string
  | ConnectingClient

text \<open>\<^verbatim>\<open>gmqtt.Subscription(topic, qos=...)\<close>.\<close>

datatype subscription = Subscription string nat

text \<open>
  The transport handle \<^verbatim>\<open>gmqtt.Client\<close>, reduced to what the feed calls on it: the
  calls of \<^verbatim>\<open>publish\<close>, \<^verbatim>\<open>subscribe\<close> and \<^verbatim>\<open>resubscribe\<close> are recorded in the order
  they are made, and \<^verbatim>\<open>get_subscriptions_by_mid\<close> reads the client's table of
  subscriptions by request id.
\<close>

record client =
  is_connected :: bool
  published :: "(string \<times> pyval \<times> nat) list"
  subscribe_requests :: "subscription list list"
  resubscribed :: "subscription list"
  subscriptions_by_mid :: "(nat \<times> subscription list) list"

definition get_subscriptions_by_mid :: "client \<Rightarrow> nat \<Rightarrow> subscription list" where
  "get_subscriptions_by_mid c mid =
     (case map_of (subscriptions_by_mid c) mid of None \<Rightarrow> [] | Some subs \<Rightarrow> subs)"

text \<open>
  \<^verbatim>\<open>gmqtt.constants.SubAckReasonCode.UNSPECIFIED_ERROR.value\<close>, the reason code 0x80
  of the MQTT protocol.
\<close>

definition UNSPECIFIED_ERROR :: int where
  "UNSPECIFIED_ERROR = 128"

text \<open>
  A callback is a coroutine function of the application, named here by a number. What
  awaiting it does is a parameter \<open>run\<close> of the message handler: \<open>run cb m\<close> is
  \<open>None\<close> when \<open>cb(m)\<close> returns and \<open>Some e\<close> when it raises \<open>e\<close>.
\<close>

type_synonym callback = nat

text \<open>
  The attributes of \<^verbatim>\<open>CommunityMQTTFeed\<close> that the methods below read or write.
  \<^verbatim>\<open>feed_callbacks\<close> is a \<^verbatim>\<open>dict\<close> from topic to list of callbacks, kept as an
  association list. \<^verbatim>\<open>_subscription_topics\<close> is a Python \<^verbatim>\<open>set\<close>, kept as a list
  without repetitions; the order in which Python iterates a set is not specified, and
  no theorem below depends on the order of this list. \<open>logger\<close> collects the records
  logged and \<open>awaited\<close> the callback calls made, with their argument, in order.
\<close>

record feed =
  feed_callbacks :: "(string \<times> callback list) list"
  subscription_topics :: "string list"
  mqtt_client :: "client option"
  default_QOS :: nat
  logger :: "(level \<times> log_message) list"
  awaited :: "(callback \<times> pyval) list"

text \<open>
  Modelled from the spec: the empty dictionary \<^verbatim>\<open>feed_callbacks\<close> is set by
  \<^verbatim>\<open>AbstractFeed.__init__\<close>, which is not under src/; the spec has the registry's
  entries created by \<^verbatim>\<open>register_feed_callback\<close> only. The other attributes are
  set by \<^verbatim>\<open>__init__\<close>, lines 39 to 47.
\<close>

definition init_feed :: feed where
  "init_feed =
     \<lparr>feed_callbacks = [], subscription_topics = [], mqtt_client = None,
      default_QOS = 1, logger = [], awaited = []\<rparr>"

text \<open>
  \<^verbatim>\<open>_connect\<close>, lines 154 to 159: a new client replaces the handle. The transport's
  own work (the network connection, and the events it fires later) is not part of it.
\<close>

definition new_client :: client where
  "new_client =
     \<lparr>is_connected = False, published = [], subscribe_requests = [], resubscribed = [],
      subscriptions_by_mid = []\<rparr>"

definition connect :: "feed \<Rightarrow> feed" where
  "connect f =
     f\<lparr>mqtt_client := Some (new_client\<lparr>is_connected := True\<rparr>),
       logger := logger f @ [(DEBUG, ConnectingClient)]\<rparr>"

definition log :: "level \<Rightarrow> log_message \<Rightarrow> feed \<Rightarrow> feed" where
  "log lvl msg f = f\<lparr>logger := logger f @ [(lvl, msg)]\<rparr>"

text \<open>\<^verbatim>\<open>','.join(topics)\<close>.\<close>

fun join_comma :: "string list \<Rightarrow> string" where
  "join_comma [] = []"
| "join_comma [t] = t"
| "join_comma (t # ts) = t @ '','' @ join_comma ts"

text \<open>
  \<^verbatim>\<open>_subscribe\<close>, lines 161 to 170. With no client (\<^verbatim>\<open>_mqtt_client\<close> is \<^verbatim>\<open>None\<close>
  until \<^verbatim>\<open>_connect\<close> ran) the call of \<^verbatim>\<open>subscribe\<close> raises an \<^verbatim>\<open>AttributeError\<close>.
\<close>

definition subscribe :: "feed \<Rightarrow> string list \<Rightarrow> (error + unit) \<times> feed" where
  "subscribe f topics =
     (if topics = [] then (Inr (), log DEBUG NoTopicToSubscribe f)
      else
        let subscriptions = map (\<lambda>topic. Subscription topic (default_QOS f)) topics;
            f1 = log DEBUG (SubscribingTo (join_comma topics)) f
        in case mqtt_client f1 of
             None \<Rightarrow> (Inl AttributeError, f1)
           | Some c \<Rightarrow>
               (Inr (),
                f1\<lparr>mqtt_client :=
                     Some (c\<lparr>subscribe_requests := subscribe_requests c @ [subscriptions]\<rparr>)\<rparr>))"

text \<open>\<^verbatim>\<open>set.add\<close> and \<^verbatim>\<open>identifier not in self._subscription_topics\<close>.\<close>

definition set_add :: "string \<Rightarrow> string list \<Rightarrow> string list" where
  "set_add x xs = (if x \<in> set xs then xs else xs @ [x])"

fun not_in :: "string option \<Rightarrow> string list \<Rightarrow> bool" where
  "not_in None xs = True"
| "not_in (Some i) xs = (i \<notin> set xs)"

text \<open>
  \<^verbatim>\<open>register_feed_callback\<close>, lines 57 to 65. The test of line 63 is on the
  identifier, as the source has it, and not on the topic.
\<close>

definition register_feed_callback ::
  "feed \<Rightarrow> CommunityChannelTypes \<Rightarrow> callback \<Rightarrow> string option \<Rightarrow> (error + unit) \<times> feed" where
  "register_feed_callback f channel_type cb identifier =
     (let topic = build_topic channel_type identifier;
          f1 = f\<lparr>feed_callbacks :=
                    (case map_of (feed_callbacks f) topic of
                       Some cbs \<Rightarrow> AList.update topic (cbs @ [cb]) (feed_callbacks f)
                     | None \<Rightarrow> AList.update topic [cb] (feed_callbacks f))\<rparr>
      in if not_in identifier (subscription_topics f1)
         then subscribe (f1\<lparr>subscription_topics := set_add topic (subscription_topics f1)\<rparr>)
                [topic]
         else (Inr (), f1))"

text \<open>\<^verbatim>\<open>_get_callbacks\<close>, lines 102 to 104: \<^verbatim>\<open>self.feed_callbacks.get(topic, ())\<close>.\<close>

definition get_callbacks :: "feed \<Rightarrow> string \<Rightarrow> callback list" where
  "get_callbacks f topic =
     (case map_of (feed_callbacks f) topic of None \<Rightarrow> [] | Some cbs \<Rightarrow> cbs)"

text \<open>
  The loop of lines 90 and 91: each callback is awaited before the next is taken, and
  a callback that raises ends the loop.
\<close>

fun await_callbacks ::
  "(callback \<Rightarrow> pyval \<Rightarrow> error option) \<Rightarrow> feed \<Rightarrow> callback list \<Rightarrow> pyval
     \<Rightarrow> (error + unit) \<times> feed" where
  "await_callbacks run f [] m = (Inr (), f)"
| "await_callbacks run f (cb # cbs) m =
     (let f1 = f\<lparr>awaited := awaited f @ [(cb, m)]\<rparr>
      in case run cb m of
           Some e \<Rightarrow> (Inl e, f1)
         | None \<Rightarrow> await_callbacks run f1 cbs m)"

text \<open>
  The \<^verbatim>\<open>except commons_errors.UnsupportedError\<close> clause of lines 92 and 93: that
  exception is logged and the handler returns; every other outcome of the guarded block
  is passed on.
\<close>

fun except_unsupported :: "(error + unit) \<times> feed \<Rightarrow> (error + unit) \<times> feed" where
  "except_unsupported (Inl (UnsupportedError e), f) =
     (Inr (), log ERROR (UnsupportedMessage (UnsupportedError e)) f)"
| "except_unsupported r = r"


text \<open>
  \<^verbatim>\<open>_on_message\<close>, lines 84 to 93. The payload is decoded before the \<^verbatim>\<open>try\<close>
  statement is entered.
\<close>

definition on_message ::
  "codec \<Rightarrow> string \<Rightarrow> (callback \<Rightarrow> pyval \<Rightarrow> error option) \<Rightarrow> feed \<Rightarrow> string \<Rightarrow> bytes \<Rightarrow> nat
     \<Rightarrow> (error + unit) \<times> feed" where
  "on_message cdc min_version run f topic payload qos =
     (let f0 = log DEBUG (RecvMsg topic payload qos) f
      in case decode_payload cdc payload of
           Inl e \<Rightarrow> (Inl e, f0)
         | Inr parsed_message \<Rightarrow>
             except_unsupported
               (case ensure_supported min_version parsed_message of
                  Inl e \<Rightarrow> (Inl e, f0)
                | Inr u \<Rightarrow> await_callbacks run f0 (get_callbacks f0 topic) parsed_message))"

text \<open>
  \<^verbatim>\<open>send\<close>, lines 95 to 100. The attribute \<^verbatim>\<open>publish\<close> of the handle is read
  before the arguments are evaluated.
\<close>

definition send ::
  "codec \<Rightarrow> string \<Rightarrow> feed \<Rightarrow> pyval \<Rightarrow> CommunityChannelTypes \<Rightarrow> string option
     \<Rightarrow> (error + unit) \<times> feed" where
  "send cdc min_version f message channel_type identifier =
     (case mqtt_client f of
        None \<Rightarrow> (Inl AttributeError, f)
      | Some c \<Rightarrow>
          (case build_message cdc min_version channel_type message of
             Inl e \<Rightarrow> (Inl e, f)
           | Inr payload \<Rightarrow>
               (Inr (),
                f\<lparr>mqtt_client :=
                    Some (c\<lparr>published := published c
                              @ [(build_topic channel_type identifier, payload, default_QOS f)]\<rparr>)\<rparr>)))"

text \<open>\<^verbatim>\<open>_on_connect\<close>, lines 127 to 130.\<close>

definition on_connect :: "feed \<Rightarrow> (error + unit) \<times> feed" where
  "on_connect f = subscribe (log INFO Connected f) (subscription_topics f)"

text \<open>\<^verbatim>\<open>_on_disconnect\<close>, lines 132 and 133.\<close>

definition on_disconnect :: "feed \<Rightarrow> feed" where
  "on_disconnect f = log INFO Disconnected f"

text \<open>
  \<^verbatim>\<open>_on_subscribe\<close>, lines 135 to 146. The handler works on the client the
  transport passes in, which it returns updated with the feed.
\<close>

fun suback_loop ::
  "feed \<Rightarrow> client \<Rightarrow> nat \<Rightarrow> (subscription \<times> int) list \<Rightarrow> feed \<times> client" where
  "suback_loop f c mid [] = (f, c)"
| "suback_loop f c mid ((sub, granted_qos) # rest) =
     (if granted_qos \<ge> UNSPECIFIED_ERROR
      then suback_loop
             (log INFO (Subscribed mid granted_qos) (log WARNING (RetryingSub mid granted_qos) f))
             (c\<lparr>resubscribed := resubscribed c @ [sub]\<rparr>) mid rest
      else suback_loop (log INFO (Subscribed mid granted_qos) f) c mid rest)"

definition on_subscribe :: "feed \<Rightarrow> client \<Rightarrow> nat \<Rightarrow> int list \<Rightarrow> feed \<times> client" where
  "on_subscribe f c mid qos = suback_loop f c mid (zip (get_subscriptions_by_mid c mid) qos)"

subsection \<open>Stand-ins used to run the handlers on concrete inputs\<close>

text \<open>
  What \<^verbatim>\<open>json.dumps\<close> accepts: no byte string and no member of a plain enumeration,
  at any depth. It raises a \<^verbatim>\<open>TypeError\<close> on every other object.
\<close>

fun json_ready :: "pyval \<Rightarrow> bool" where
  "json_ready PyNone = True"
| "json_ready (PyBool b) = True"
| "json_ready (PyInt i) = True"
| "json_ready (PyStr s) = True"
| "json_ready (PyBytes b) = False"
| "json_ready (PyList xs) = list_all json_ready xs"
| "json_ready (PyDict kvs) = list_all json_ready (map snd kvs)"
| "json_ready (PyEnum c) = False"

text \<open>
  The text \<^verbatim>\<open>json.dumps\<close> writes for an object it accepts, with its default
  separators. Strings are written between double quotes as they are, which is what
  \<^verbatim>\<open>json.dumps\<close> does for ASCII strings without quotes, backslashes and control
  characters; the strings used below are of that kind.
\<close>

definition json_quote :: "string \<Rightarrow> string" where
  "json_quote s = CHR 0x22 # s @ [CHR 0x22]"

fun join_with :: "string \<Rightarrow> string list \<Rightarrow> string" where
  "join_with sep [] = []"
| "join_with sep [t] = t"
| "join_with sep (t # ts) = t @ sep @ join_with sep ts"

fun render :: "pyval \<Rightarrow> string" where
  "render PyNone = ''null''"
| "render (PyBool b) = (if b then ''true'' else ''false'')"
| "render (PyInt i) = (if i < 0 then ''-'' @ str_nat (nat (- i)) else str_nat (nat i))"
| "render (PyStr s) = json_quote s"
| "render (PyBytes b) = []"
| "render (PyList xs) = ''['' @ join_with '', '' (map render xs) @ '']''"
| "render (PyDict kvs) =
     ''{'' @ join_with '', '' (map (\<lambda>kv. json_quote (fst kv) @ '': '' @ render (snd kv)) kvs) @ ''}''"
| "render (PyEnum c) = []"

definition sample_dumps :: "pyval \<Rightarrow> error + string" where
  "sample_dumps v = (if json_ready v then Inr (render v) else Inl TypeError)"

text \<open>
  A message value, and the documents a peer publishes for it: the channel type is on
  the wire by its value, as line 107 reads it.
\<close>

definition sample_signal :: pyval where
  "sample_signal = PyDict [(''symbol'', PyStr ''BTC/USDT''), (''action'', PyStr ''buy'')]"

definition inbound :: "string \<Rightarrow> pyval" where
  "inbound ver =
     PyDict [(attr_value CHANNEL_TYPE, PyStr ''signal''),
             (attr_value VERSION, PyStr ver),
             (attr_value VALUE, sample_signal)]"

definition sample_documents :: "pyval list" where
  "sample_documents = [inbound ''0.0.1'', inbound ''1.0.0'', inbound ''2.0.0'']"

text \<open>
  The parser reads the texts of the documents above and rejects every other text. Of
  the texts it rejects only \<^verbatim>\<open>not json\<close> is used below, which is no JSON document.
\<close>

definition sample_loads :: "string \<Rightarrow> error + pyval" where
  "sample_loads s =
     (case find (\<lambda>d. render d = s) sample_documents of
        None \<Rightarrow> Inl JSONDecodeError
      | Some d \<Rightarrow> Inr d)"

text \<open>
  The compressor writes a marker, the length of the data and the data; the
  decompressor raises on everything that is not of this form, the empty byte string
  included. The format is the stand-in's own: payloads are built with the compressor,
  and the only byte strings written out below are ones that \<^verbatim>\<open>zlib.decompress\<close>
  rejects as well.
\<close>

definition sample_compress :: "bytes \<Rightarrow> bytes" where
  "sample_compress b = 120 # length b # b"

definition sample_decompress :: "bytes \<Rightarrow> error + bytes" where
  "sample_decompress b =
     (case b of
        h # n # t \<Rightarrow> if h = 120 \<and> n = length t then Inr t else Inl ZlibError
      | _ \<Rightarrow> Inl ZlibError)"

definition sample_codec :: codec where
  "sample_codec =
     \<lparr>json_dumps = sample_dumps, str_encode = map of_char, zlib_compress = sample_compress,
      zlib_decompress = sample_decompress, bytes_decode = (\<lambda>b. Inr (map char_of b)),
      json_loads = sample_loads\<rparr>"

text \<open>The payload on the wire for a text, and for a document.\<close>

definition wire_text :: "string \<Rightarrow> bytes" where
  "wire_text txt = zlib_compress sample_codec (str_encode sample_codec txt)"

definition wire :: "pyval \<Rightarrow> bytes" where
  "wire d = wire_text (render d)"

text \<open>A session after \<^verbatim>\<open>_connect\<close>, and callbacks that all return.\<close>

definition started_feed :: feed where
  "started_feed = connect init_feed"

definition all_return :: "callback \<Rightarrow> pyval \<Rightarrow> error option" where
  "all_return cb m = None"


text \<open>A client that sent one subscribe request for three topics, with request id 7.\<close>

definition acked_client :: client where
  "acked_client =
     new_client\<lparr>subscriptions_by_mid :=
       [(7, [Subscription ''price/A'' 1, Subscription ''price/B'' 1, Subscription ''price/C'' 1])]\<rparr>"

text \<open>
  A sequence of calls of \<^verbatim>\<open>register_feed_callback\<close>. A call that raises has written
  the registry before it did, and the next call finds it so.
\<close>

fun register_all ::
  "feed \<Rightarrow> (CommunityChannelTypes \<times> callback \<times> string option) list \<Rightarrow> feed" where
  "register_all f [] = f"
| "register_all f ((c, cb, i) # regs) = register_all (snd (register_feed_callback f c cb i)) regs"

section \<open>Theorems\<close>

subsection \<open>Auxiliary facts\<close>

declare str_nat.simps [simp del]

lemma digits_are_digits: "list_all (\<lambda>n. is_digit (digit_char n)) [0..<10]"
  by code_simp

lemma is_digit_digit_char:
  assumes "n < 10"
  shows "is_digit (digit_char n)"
proof -
  have "n \<in> set [0..<10]"
    using assms by simp
  with digits_are_digits show ?thesis
    unfolding list_all_iff by blast
qed

lemma of_char_digit_char: "n < 10 \<Longrightarrow> of_char (digit_char n) - 48 = n"
  by simp

lemma str_nat_digits: "list_all is_digit (str_nat n)"
proof (induction n rule: str_nat.induct)
  case (1 n)
  show ?case
  proof (cases "n < 10")
    case True
    then show ?thesis by (simp add: str_nat.simps [of n] is_digit_digit_char del: digit_char.simps)
  next
    case False
    then have "list_all is_digit (str_nat (n div 10))" using 1 by simp
    moreover have "is_digit (digit_char (n mod 10))" by (rule is_digit_digit_char) simp
    ultimately show ?thesis using False by (simp add: str_nat.simps [of n] del: digit_char.simps)
  qed
qed

lemma str_nat_nonempty: "str_nat n \<noteq> []"
  by (simp add: str_nat.simps [of n])

lemma int_of_digits_snoc: "int_of_digits (s @ [c]) = 10 * int_of_digits s + (of_char c - 48)"
  by (simp add: int_of_digits_def)

lemma int_of_digits_str_nat: "int_of_digits (str_nat n) = n"
proof (induction n rule: str_nat.induct)
  case (1 n)
  show ?case
  proof (cases "n < 10")
    case True
    then show ?thesis by (simp add: str_nat.simps [of n] int_of_digits_def)
  next
    case False
    then have "int_of_digits (str_nat (n div 10)) = n div 10" using 1 by simp
    then show ?thesis using False
      by (simp add: str_nat.simps [of n] int_of_digits_snoc of_char_digit_char del: digit_char.simps)
  qed
qed

lemma not_digit_dot: "\<not> is_digit CHR ''.''"
  by (simp add: is_digit_def)

lemma not_lower_dot: "\<not> is_lower CHR ''.''"
  by (simp add: is_lower_def)

lemma parse_digits_dot:
  assumes "ds \<noteq> []" and "list_all is_digit ds"
  shows "parse_components (ds @ CHR ''.'' # rest) = CInt (int_of_digits ds) # parse_components rest"
proof -
  obtain d ds' where ds: "ds = d # ds'" using assms(1) by (cases ds) auto
  have d: "is_digit d" and ds': "list_all is_digit ds'" using assms(2) ds by auto
  have tw: "takeWhile is_digit (ds' @ CHR ''.'' # rest) = ds'"
    using ds' not_digit_dot by (induction ds') auto
  have dw: "dropWhile is_digit (ds' @ CHR ''.'' # rest) = CHR ''.'' # rest"
    using ds' not_digit_dot by (induction ds') auto
  show ?thesis using d by (simp add: ds tw dw not_digit_dot not_lower_dot)
qed

lemma parse_digits_end:
  assumes "ds \<noteq> []" and "list_all is_digit ds"
  shows "parse_components ds = [CInt (int_of_digits ds)]"
proof -
  obtain d ds' where ds: "ds = d # ds'" using assms(1) by (cases ds) auto
  have d: "is_digit d" and ds': "list_all is_digit ds'" using assms(2) ds by auto
  have tw: "takeWhile is_digit ds' = ds'"
    using ds' by (induction ds') auto
  have dw: "dropWhile is_digit ds' = []"
    using ds' by (induction ds') auto
  show ?thesis using d by (simp add: ds tw dw)
qed

lemma parse_semver_string:
  "parse_components (semver_string (a, b, c)) = [CInt a, CInt b, CInt c]"
  by (simp add: parse_digits_dot parse_digits_end str_nat_nonempty str_nat_digits
        int_of_digits_str_nat)

lemma semver_string_nonempty: "semver_string v \<noteq> []"
  by (cases v) (simp add: str_nat_nonempty)

lemma list_lt_semver:
  "list_lt [CInt a, CInt b, CInt c] [CInt a', CInt b', CInt c']
     = Inr (semver_lt (a, b, c) (a', b', c'))"
  by auto

lemma version_lt_semver:
  "version_lt (Some (parse_components (semver_string v))) (Some (parse_components (semver_string m)))
     = Inr (semver_lt v m)"
  by (cases v, cases m) (simp only: parse_semver_string version_lt_def option.case list_lt_semver)

lemma ensure_supported_semver:
  assumes "map_of kvs (attr_value VERSION) = Some (PyStr (semver_string v))"
  shows "ensure_supported (semver_string m) (PyDict kvs) =
           (if semver_lt v m
            then Inl (UnsupportedError (''Minimum version: '' @ semver_string m))
            else Inr ())"
  using assms
  by (simp add: ensure_supported_def subscript_def loose_version_def semver_string_nonempty
        version_lt_semver del: semver_string.simps semver_lt.simps attr_value.simps)

lemma suback_loop_client:
  "snd (suback_loop f c mid ps) =
     c\<lparr>resubscribed := resubscribed c
          @ map fst (filter (\<lambda>(sub, q). q \<ge> UNSPECIFIED_ERROR) ps)\<rparr>"
  by (induction ps arbitrary: f c) auto

lemma suback_loop_feed:
  "fst (suback_loop f c mid ps) =
     f\<lparr>logger := logger f
          @ concat (map (\<lambda>(sub, q). (if q \<ge> UNSPECIFIED_ERROR then [(WARNING, RetryingSub mid q)] else [])
                                      @ [(INFO, Subscribed mid q)]) ps)\<rparr>"
  by (induction ps arbitrary: f c) (auto simp: log_def)


lemma await_callbacks_prefix:
  "\<exists>k \<le> length cbs. awaited (snd (await_callbacks run f cbs m))
       = awaited f @ map (\<lambda>cb. (cb, m)) (take k cbs)"
proof (induction cbs arbitrary: f)
  case Nil
  then show ?case by simp
next
  case (Cons cb cbs)
  show ?case
  proof (cases "run cb m")
    case None
    obtain k where "k \<le> length cbs"
      "awaited (snd (await_callbacks run (f\<lparr>awaited := awaited f @ [(cb, m)]\<rparr>) cbs m))
         = awaited (f\<lparr>awaited := awaited f @ [(cb, m)]\<rparr>) @ map (\<lambda>cb. (cb, m)) (take k cbs)"
      using Cons.IH by blast
    then show ?thesis using None by (intro exI [of _ "Suc k"]) simp
  next
    case (Some e)
    then show ?thesis by (intro exI [of _ "Suc 0"]) simp
  qed
qed





lemma get_callbacks_log: "get_callbacks (log lvl msg f) t = get_callbacks f t"
  by (simp add: get_callbacks_def log_def)

lemma distinct_set_add: "distinct xs \<Longrightarrow> distinct (set_add x xs)"
  by (simp add: set_add_def)

lemma subscribe_subscription_topics:
  "subscription_topics (snd (subscribe f ts)) = subscription_topics f"
  by (simp add: subscribe_def log_def Let_def split: option.splits)

lemma register_distinct:
  "distinct (subscription_topics f) \<Longrightarrow>
   distinct (subscription_topics (snd (register_feed_callback f c cb i)))"
  by (simp add: register_feed_callback_def Let_def subscribe_subscription_topics distinct_set_add)

lemma register_all_distinct:
  "distinct (subscription_topics f) \<Longrightarrow> distinct (subscription_topics (register_all f regs))"
  by (induction f regs rule: register_all.induct) (simp_all add: register_distinct)





lemma envelope_not_json_ready: "\<not> json_ready (envelope min_version c v)"
  by (simp add: envelope_def)

lemma decode_payload_json_loads:
  "decode_payload cdc b = Inr d \<Longrightarrow> \<exists>txt. json_loads cdc txt = Inr d"
  by (auto simp: decode_payload_def split: sum.splits)

lemma decode_never_envelope:
  assumes "\<And>txt d. json_loads cdc txt = Inr d \<Longrightarrow> json_ready d"
  shows "decode_payload cdc b \<noteq> Inr (envelope min_version c v)"
proof
  assume "decode_payload cdc b = Inr (envelope min_version c v)"
  then obtain t where "json_loads cdc t = Inr (envelope min_version c v)"
    using decode_payload_json_loads by blast
  then have "json_ready (envelope min_version c v)"
    by (rule assms)
  then show False
    by (simp add: envelope_not_json_ready)
qed

lemma build_then_decode:
  assumes "truthy v"
      and "json_dumps cdc (envelope min_version c v) = Inr txt"
      and "zlib_decompress cdc (zlib_compress cdc (str_encode cdc txt)) = Inr (str_encode cdc txt)"
      and "bytes_decode cdc (str_encode cdc txt) = Inr txt"
  shows "build_message cdc min_version c v
           = Inr (PyBytes (zlib_compress cdc (str_encode cdc txt)))
         \<and> decode_payload cdc (zlib_compress cdc (str_encode cdc txt)) = json_loads cdc txt"
  using assms by (simp add: build_message_def decode_payload_def)

lemma send_nonempty:
  assumes "mqtt_client f = Some c" and "truthy message"
  shows "send cdc min_version f message channel_type identifier =
           (case json_dumps cdc (envelope min_version channel_type message) of
              Inl e \<Rightarrow> (Inl e, f)
            | Inr txt \<Rightarrow>
                (Inr (),
                 f\<lparr>mqtt_client := Some (c\<lparr>published := published c
                     @ [(build_topic channel_type identifier,
                         PyBytes (zlib_compress cdc (str_encode cdc txt)), default_QOS f)]\<rparr>)\<rparr>))"
  using assms by (simp add: send_def build_message_def split: sum.splits)

subsection \<open>Topic derivation\<close>

lemma build_topic_Some_inject:
  "build_topic c (Some i1) = build_topic c (Some i2) \<longleftrightarrow> i1 = i2"
  by (simp add: build_topic_def)

text \<open>
  C8, as the code has it. The topic is the channel type's value, a slash and the
  formatted identifier; for one channel type two different identifier strings give two
  different topics, and the absent identifier \<^verbatim>\<open>None\<close> is formatted as the text
  \<^verbatim>\<open>None\<close>.
\<close>

theorem C8_topic_derivation:
  "build_topic c i = channel_value c @ ''/'' @ format_identifier i
   \<and> (build_topic c (Some i1) = build_topic c (Some i2) \<longleftrightarrow> i1 = i2)
   \<and> build_topic c None = channel_value c @ ''/None''"
  by (simp add: build_topic_def)

theorem C8_topic_derivation_witness:
  "build_topic (ChannelType ''price'') (Some ''A'') = ''price/A''
   \<and> build_topic (ChannelType ''price'') (Some ''B'') = ''price/B''
   \<and> build_topic (ChannelType ''price'') (Some ''A'')
       \<noteq> build_topic (ChannelType ''price'') (Some ''B'')"
  using C8_topic_derivation [of "ChannelType ''price''" "Some ''A''" "''A''" "''B''"]
        C8_topic_derivation [of "ChannelType ''price''" "Some ''B''" "''A''" "''B''"]
  by simp

text \<open>
  C8 as stated fails: the absent identifier and the identifier string \<^verbatim>\<open>"None"\<close> are
  two different identifiers with one topic.
\<close>

theorem C8_None_collision:
  "(None :: string option) \<noteq> Some ''None''
   \<and> build_topic (ChannelType ''price'') None
       = build_topic (ChannelType ''price'') (Some ''None'')"
  by (simp add: build_topic_def)

subsection \<open>The empty-value short-circuit\<close>

text \<open>
  C9. For every channel type, \<^verbatim>\<open>_build_message\<close> returns the same empty dictionary
  for \<^verbatim>\<open>None\<close> and for \<^verbatim>\<open>{}\<close>, whatever the serialiser and the compressor are:
  neither is applied, and the result is not a byte string.
\<close>

theorem C9_empty_short_circuit:
  "build_message cdc min_version c PyNone = Inr (PyDict [])
   \<and> build_message cdc min_version c (PyDict []) = Inr (PyDict [])
   \<and> build_message cdc min_version c PyNone = build_message cdc' min_version' c (PyDict [])
   \<and> build_message cdc min_version c PyNone \<noteq> Inr (PyBytes b)"
  by (simp add: build_message_def)

subsection \<open>Decode failures\<close>

text \<open>
  C1, as the code has it. When the payload of an inbound message fails to decode, the
  handler does not catch the error: the exception of the decompressor, the text decoder
  or the parser leaves \<^verbatim>\<open>_on_message\<close>, after the receipt was logged at debug level
  and before the \<^verbatim>\<open>try\<close> statement is entered. No callback is awaited for the message
  and the handler does nothing to the transport handle.
\<close>

theorem C1_decode_failure_propagates:
  assumes "decode_payload cdc payload = Inl e"
  shows "on_message cdc min_version run f topic payload qos
           = (Inl e, log DEBUG (RecvMsg topic payload qos) f)
         \<and> awaited (snd (on_message cdc min_version run f topic payload qos)) = awaited f
         \<and> mqtt_client (snd (on_message cdc min_version run f topic payload qos)) = mqtt_client f"
  using assms by (simp add: on_message_def log_def)

theorem C1_decode_failure_propagates_witness:
  "decode_payload sample_codec [] = Inl ZlibError
   \<and> on_message sample_codec ''1.0.0'' all_return started_feed ''signal/A'' [] 1
       = (Inl ZlibError, log DEBUG (RecvMsg ''signal/A'' [] 1) started_feed)"
proof -
  have h: "decode_payload sample_codec [] = Inl ZlibError"
    by code_simp
  from C1_decode_failure_propagates [OF h] h show ?thesis
    by simp
qed

text \<open>
  C1 as stated fails: the handler called with a payload that is no compressed stream
  (the empty byte string, or the bytes of a text that was never compressed), or with the
  compressed form of a text that is no JSON document, ends with the exception instead
  of returning, and its log holds the debug record of the receipt and no error record.
\<close>

theorem C1_swallow_counterexample:
  "fst (on_message sample_codec ''1.0.0'' all_return started_feed ''signal/A'' [] 1)
     = Inl ZlibError
   \<and> fst (on_message sample_codec ''1.0.0'' all_return started_feed ''signal/A''
            (120 # map of_char ''not json'') 1)
     = Inl ZlibError
   \<and> fst (on_message sample_codec ''1.0.0'' all_return started_feed ''signal/A''
            (wire_text ''not json'') 1)
     = Inl JSONDecodeError
   \<and> logger (snd (on_message sample_codec ''1.0.0'' all_return started_feed ''signal/A'' [] 1))
     = [(DEBUG, ConnectingClient), (DEBUG, RecvMsg ''signal/A'' [] 1)]"
  by code_simp

subsection \<open>The version gate\<close>

text \<open>
  C3. For an envelope whose version is the semantic version \<open>v\<close> and a minimum
  version \<open>m\<close>, each written major.minor.patch, \<^verbatim>\<open>_ensure_supported\<close> raises
  \<^verbatim>\<open>UnsupportedError\<close> exactly when \<open>v\<close> is smaller than \<open>m\<close> component by
  component. The handler then logs the error and returns: the exception does not leave
  it, no callback is awaited and the transport handle is untouched. Otherwise the
  message goes on to the callbacks of its topic. The witness runs the versions 0.0.1,
  1.0.0 and 2.0.0 against the minimum 1.0.0.
\<close>

theorem C3_version_gate:
  assumes "decode_payload cdc payload = Inr (PyDict kvs)"
      and "map_of kvs (attr_value VERSION) = Some (PyStr (semver_string v))"
  shows "ensure_supported (semver_string m) (PyDict kvs) =
           (if semver_lt v m
            then Inl (UnsupportedError (''Minimum version: '' @ semver_string m))
            else Inr ())
         \<and> on_message cdc (semver_string m) run f topic payload qos =
           (if semver_lt v m
            then (Inr (),
                  log ERROR (UnsupportedMessage
                               (UnsupportedError (''Minimum version: '' @ semver_string m)))
                    (log DEBUG (RecvMsg topic payload qos) f))
            else except_unsupported
                   (await_callbacks run (log DEBUG (RecvMsg topic payload qos) f)
                      (get_callbacks f topic) (PyDict kvs)))
         \<and> (if semver_lt v m
            then awaited (snd (on_message cdc (semver_string m) run f topic payload qos))
                   = awaited f
                 \<and> mqtt_client (snd (on_message cdc (semver_string m) run f topic payload qos))
                   = mqtt_client f
            else True)"
proof -
  have es: "ensure_supported (semver_string m) (PyDict kvs) =
           (if semver_lt v m
            then Inl (UnsupportedError (''Minimum version: '' @ semver_string m))
            else Inr ())"
    by (rule ensure_supported_semver [OF assms(2)])
  have om: "on_message cdc (semver_string m) run f topic payload qos =
           (if semver_lt v m
            then (Inr (),
                  log ERROR (UnsupportedMessage
                               (UnsupportedError (''Minimum version: '' @ semver_string m)))
                    (log DEBUG (RecvMsg topic payload qos) f))
            else except_unsupported
                   (await_callbacks run (log DEBUG (RecvMsg topic payload qos) f)
                      (get_callbacks f topic) (PyDict kvs)))"
    using assms(1) es
    by (simp add: on_message_def get_callbacks_log Let_def
          del: semver_string.simps semver_lt.simps)
  show ?thesis
    using es om by (simp add: log_def del: semver_string.simps semver_lt.simps)
qed

theorem C3_version_gate_witness:
  "ensure_supported ''1.0.0'' (inbound ''0.0.1'')
     = Inl (UnsupportedError ''Minimum version: 1.0.0'')
   \<and> ensure_supported ''1.0.0'' (inbound ''1.0.0'') = Inr ()
   \<and> ensure_supported ''1.0.0'' (inbound ''2.0.0'') = Inr ()
   \<and> on_message sample_codec ''1.0.0'' all_return started_feed ''signal/A''
       (wire (inbound ''0.0.1'')) 1
     = (Inr (),
        log ERROR (UnsupportedMessage (UnsupportedError ''Minimum version: 1.0.0''))
          (log DEBUG (RecvMsg ''signal/A'' (wire (inbound ''0.0.1'')) 1) started_feed))"
proof -
  let ?kvs = "\<lambda>ver. [(attr_value CHANNEL_TYPE, PyStr ''signal''),
                     (attr_value VERSION, PyStr ver), (attr_value VALUE, sample_signal)]"
  have s: "semver_string (0, 0, 1) = ''0.0.1''" "semver_string (1, 0, 0) = ''1.0.0''"
    "semver_string (2, 0, 0) = ''2.0.0''"
    by code_simp+
  have d1: "decode_payload sample_codec (wire (inbound ''0.0.1''))
             = Inr (PyDict (?kvs (semver_string (0, 0, 1))))"
    unfolding s by code_simp
  have d2: "decode_payload sample_codec (wire (inbound ''1.0.0''))
             = Inr (PyDict (?kvs (semver_string (1, 0, 0))))"
    unfolding s by code_simp
  have d3: "decode_payload sample_codec (wire (inbound ''2.0.0''))
             = Inr (PyDict (?kvs (semver_string (2, 0, 0))))"
    unfolding s by code_simp
  have v: "\<And>ver. map_of (?kvs ver) (attr_value VERSION) = Some (PyStr ver)"
    by simp
  have lt: "semver_lt (0, 0, 1) (1, 0, 0)" "\<not> semver_lt (1, 0, 0) (1, 0, 0)"
    "\<not> semver_lt (2, 0, 0) (1, 0, 0)"
    by simp_all
  note a = C3_version_gate [OF d1 v, of "(1, 0, 0)" all_return started_feed "''signal/A''" 1]
  note b = C3_version_gate [OF d2 v, of "(1, 0, 0)" all_return started_feed "''signal/A''" 1]
  note c = C3_version_gate [OF d3 v, of "(1, 0, 0)" all_return started_feed "''signal/A''" 1]
  show ?thesis
    using a b c lt unfolding s inbound_def
    by (simp del: semver_string.simps semver_lt.simps attr_value.simps)
qed

subsection \<open>The envelope round trip\<close>

text \<open>
  C4, evaluated on the code. Line 113 puts the \<^verbatim>\<open>channel_type\<close> argument, a member
  of the enumeration, into the envelope, where line 82 writes the member's value into
  the topic and line 107 rebuilds the member from the value it reads in a received
  envelope. A serialiser that rejects enumeration members raises on that envelope, so
  no payload is built for a non-empty value; and no parsed JSON document holds an
  enumeration member (\<open>decode_never_envelope\<close>), so the envelope the claim names is
  never what decoding returns. The round trip does work for the document that holds the
  member's value.
\<close>

theorem C4_enum_member_in_envelope:
  "truthy sample_signal
   \<and> json_dumps sample_codec (envelope ''1.0.0'' (ChannelType ''signal'') sample_signal)
     = Inl TypeError
   \<and> build_message sample_codec ''1.0.0'' (ChannelType ''signal'') sample_signal
     = Inl TypeError
   \<and> json_dumps sample_codec (inbound ''1.0.0'') = Inr (render (inbound ''1.0.0''))
   \<and> decode_payload sample_codec (wire (inbound ''1.0.0'')) = Inr (inbound ''1.0.0'')
   \<and> inbound ''1.0.0'' \<noteq> envelope ''1.0.0'' (ChannelType ''signal'') sample_signal"
  by code_simp

subsection \<open>Subscription acknowledgments\<close>

text \<open>
  C6. On a subscribe acknowledgment, the subscriptions of the request are paired with
  the granted QoS values, and \<^verbatim>\<open>resubscribe\<close> is called once for each pair whose
  granted QoS is an error code (at least \<^verbatim>\<open>UNSPECIFIED_ERROR\<close>), in the order of the
  batch, and for no other pair. Nothing else of the client changes, and of the feed only
  the log: a warning for each retry and an info record for each pair.
\<close>

theorem C6_resubscribe_per_subscription:
  "snd (on_subscribe f c mid qos) =
     c\<lparr>resubscribed := resubscribed c
          @ map fst (filter (\<lambda>(sub, granted_qos). granted_qos \<ge> UNSPECIFIED_ERROR)
                       (zip (get_subscriptions_by_mid c mid) qos))\<rparr>
   \<and> fst (on_subscribe f c mid qos) =
     f\<lparr>logger := logger f
          @ concat (map (\<lambda>(sub, granted_qos).
                           (if granted_qos \<ge> UNSPECIFIED_ERROR
                            then [(WARNING, RetryingSub mid granted_qos)] else [])
                           @ [(INFO, Subscribed mid granted_qos)])
                      (zip (get_subscriptions_by_mid c mid) qos))\<rparr>"
  by (simp add: on_subscribe_def suback_loop_client suback_loop_feed)

theorem C6_resubscribe_per_subscription_witness:
  "resubscribed (snd (on_subscribe started_feed acked_client 7 [1, 128, 0]))
     = [Subscription ''price/B'' 1]
   \<and> subscribe_requests (snd (on_subscribe started_feed acked_client 7 [1, 128, 0])) = []
   \<and> subscriptions_by_mid (snd (on_subscribe started_feed acked_client 7 [1, 128, 0]))
     = subscriptions_by_mid acked_client"
proof -
  have z: "map fst (filter (\<lambda>(sub, granted_qos). granted_qos \<ge> UNSPECIFIED_ERROR)
                       (zip (get_subscriptions_by_mid acked_client 7) [1, 128, 0]))
            = [Subscription ''price/B'' 1]"
    by code_simp
  have r: "resubscribed acked_client = []" "subscribe_requests acked_client = []"
    by (simp_all add: acked_client_def new_client_def)
  show ?thesis
    using C6_resubscribe_per_subscription [of started_feed acked_client 7 "[1, 128, 0]"]
    unfolding z by (simp add: r)
qed

subsection \<open>Callback dispatch\<close>




subsection \<open>Sending\<close>

text \<open>
  C10, as the code has it. A call of \<^verbatim>\<open>send\<close> with an empty or absent message on a
  session that has its transport handle makes exactly one call of \<^verbatim>\<open>publish\<close>, with
  the topic of the channel type and identifier, the session's default QoS, and as
  payload the empty dictionary that \<^verbatim>\<open>_build_message\<close> returns for such a message,
  whatever the codec is. On a session without a transport handle \<^verbatim>\<open>send\<close> raises an
  \<^verbatim>\<open>AttributeError\<close>, for every message, and nothing is published.
\<close>

theorem C10_send_empty_publishes_once:
  assumes "\<not> truthy message"
  shows "send cdc min_version f message channel_type identifier =
           (case mqtt_client f of
              None \<Rightarrow> (Inl AttributeError, f)
            | Some c \<Rightarrow>
                (Inr (),
                 f\<lparr>mqtt_client := Some (c\<lparr>published := published c
                     @ [(build_topic channel_type identifier, PyDict [], default_QOS f)]\<rparr>)\<rparr>))
         \<and> build_message cdc min_version channel_type message = Inr (PyDict [])
         \<and> (if mqtt_client f = None
            then send cdc min_version f any_message channel_type identifier
                   = (Inl AttributeError, f)
            else True)"
  using assms by (simp add: send_def build_message_def split: option.splits)

theorem C10_send_empty_publishes_once_witness:
  "\<not> truthy PyNone \<and> \<not> truthy (PyDict [])
   \<and> send sample_codec ''1.0.0'' started_feed PyNone (ChannelType ''signal'') (Some ''A'')
     = (Inr (),
        started_feed\<lparr>mqtt_client := Some (new_client\<lparr>is_connected := True,
           published := [(''signal/A'', PyDict [], 1)]\<rparr>)\<rparr>)
   \<and> send sample_codec ''1.0.0'' started_feed (PyDict []) (ChannelType ''signal'') (Some ''A'')
     = (Inr (),
        started_feed\<lparr>mqtt_client := Some (new_client\<lparr>is_connected := True,
           published := [(''signal/A'', PyDict [], 1)]\<rparr>)\<rparr>)
   \<and> send sample_codec ''1.0.0'' init_feed PyNone (ChannelType ''signal'') (Some ''A'')
     = (Inl AttributeError, init_feed)"
proof -
  have n: "\<not> truthy PyNone" "\<not> truthy (PyDict [])"
    by simp_all
  have c: "mqtt_client started_feed = Some (new_client\<lparr>is_connected := True\<rparr>)"
    "mqtt_client init_feed = None"
    by (simp_all add: started_feed_def connect_def init_feed_def)
  have q: "default_QOS started_feed = 1" "published new_client = []"
    by (simp_all add: started_feed_def connect_def init_feed_def new_client_def)
  note x = C10_send_empty_publishes_once [OF n(1), of sample_codec "''1.0.0''" started_feed
      "ChannelType ''signal''" "Some ''A''" PyNone]
  note y = C10_send_empty_publishes_once [OF n(2), of sample_codec "''1.0.0''" started_feed
      "ChannelType ''signal''" "Some ''A''" PyNone]
  note z = C10_send_empty_publishes_once [OF n(1), of sample_codec "''1.0.0''" init_feed
      "ChannelType ''signal''" "Some ''A''" PyNone]
  show ?thesis
    using x y z by (simp add: c q build_topic_def)
qed

text \<open>
  C10 as stated fails: a call of \<^verbatim>\<open>send\<close> on a session that has no transport handle
  yet raises and publishes nothing; and on a started session a call with a non-empty
  message, whose envelope holds the enumeration member (line 113), raises the
  serialiser's \<^verbatim>\<open>TypeError\<close> and leaves the list of published messages empty.
\<close>

theorem C10_no_publish_counterexample:
  "send sample_codec ''1.0.0'' init_feed PyNone (ChannelType ''signal'') (Some ''A'')
     = (Inl AttributeError, init_feed)
   \<and> mqtt_client init_feed = None
   \<and> truthy sample_signal
   \<and> send sample_codec ''1.0.0'' started_feed sample_signal (ChannelType ''signal'') (Some ''A'')
     = (Inl TypeError, started_feed)
   \<and> map_option published (mqtt_client started_feed) = Some []"
  by code_simp

subsection \<open>Registration and the subscribed-set\<close>

text \<open>
  C2, evaluated on the code. Two registrations for the same channel type and
  identifier on a started session: the topic is in the subscribed-set once, and the
  second call issues a second subscribe request for it, because line 63 looks the
  identifier up in a set of topics.
\<close>

theorem C2_duplicate_subscribe_request:
  "(let f1 = snd (register_feed_callback started_feed (ChannelType ''price'') 1 (Some ''A''));
        f2 = snd (register_feed_callback f1 (ChannelType ''price'') 2 (Some ''A''))
    in (subscription_topics f1, subscription_topics f2,
        map_option subscribe_requests (mqtt_client f1),
        map_option subscribe_requests (mqtt_client f2)))
   = ([''price/A''], [''price/A''],
      Some [[Subscription ''price/A'' 1]],
      Some [[Subscription ''price/A'' 1], [Subscription ''price/A'' 1]])"
  by code_simp

text \<open>
  C5, evaluated on the code. A callback is registered for identifier \<^verbatim>\<open>x\<close> and then
  one for the identifier \<^verbatim>\<open>signal/x\<close>, which is the first topic: line 63 finds it in
  the subscribed-set, so the second topic is neither added nor subscribed, and the
  request sent on the connected event leaves it out although a callback is registered
  for it.
\<close>

theorem C5_registered_topic_omitted:
  "(let f1 = snd (register_feed_callback started_feed (ChannelType ''signal'') 1 (Some ''x''));
        f2 = snd (register_feed_callback f1 (ChannelType ''signal'') 2 (Some ''signal/x''));
        f3 = snd (on_connect f2)
    in (get_callbacks f3 ''signal/x'', get_callbacks f3 ''signal/signal/x'',
        subscription_topics f3,
        map_option (last \<circ> subscribe_requests) (mqtt_client f3)))
   = ([1], [2], [''signal/x''], Some [Subscription ''signal/x'' 1])"
  by code_simp

text \<open>
  What holds of the connected event: with a transport handle and a non-empty
  subscribed-set, \<^verbatim>\<open>_on_connect\<close> issues one subscribe request, which holds one
  subscription at the default QoS for each topic of the subscribed-set and nothing
  else; and the subscribed-set built by any sequence of registrations holds no topic
  twice. The order of the subscriptions in the request is left open.
\<close>

theorem on_connect_resubscribes_set:
  assumes "mqtt_client f = Some c" and "subscription_topics f \<noteq> []"
  shows "\<exists>request.
           mqtt_client (snd (on_connect f)) =
             Some (c\<lparr>subscribe_requests := subscribe_requests c @ [request]\<rparr>)
           \<and> set request = (\<lambda>topic. Subscription topic (default_QOS f)) ` set (subscription_topics f)
           \<and> length request = length (subscription_topics f)
           \<and> fst (on_connect f) = Inr ()
           \<and> subscription_topics (snd (on_connect f)) = subscription_topics f
           \<and> distinct (subscription_topics (register_all init_feed regs))
           \<and> distinct (subscription_topics (register_all (connect init_feed) regs))"
proof -
  let ?request = "map (\<lambda>topic. Subscription topic (default_QOS f)) (subscription_topics f)"
  have "mqtt_client (snd (on_connect f)) =
          Some (c\<lparr>subscribe_requests := subscribe_requests c @ [?request]\<rparr>)"
    and "fst (on_connect f) = Inr ()"
    and "subscription_topics (snd (on_connect f)) = subscription_topics f"
    using assms by (simp_all add: on_connect_def subscribe_def log_def Let_def)
  moreover have "set ?request
      = (\<lambda>topic. Subscription topic (default_QOS f)) ` set (subscription_topics f)"
    and "length ?request = length (subscription_topics f)"
    by simp_all
  moreover have "distinct (subscription_topics (register_all init_feed regs))"
    and "distinct (subscription_topics (register_all (connect init_feed) regs))"
    by (simp_all add: register_all_distinct init_feed_def connect_def)
  ultimately show ?thesis
    by blast
qed

end
